theory Spec2Isabelle
  imports Complex_Main "HOL-Library.Word"
begin

section \<open>CoordinateSpace: the program of \<open>main.cpp\<close> as a trace of library calls\<close>

text \<open>
  \<open>main.cpp\<close> is one function, \<open>main\<close>, that calls GLFW, GLAD, stb\_image, GLM, OpenGL
  and the \<open>Shader\<close> class in a fixed order, with two early returns and one loop. The
  embedding gives \<open>main\<close> an explicit environment (what the libraries answer: whether the
  window was created, whether the loader succeeded, what \<open>stbi_load\<close> returned, and per
  loop iteration the key state, the clock readings and the events delivered by
  \<open>glfwPollEvents\<close>) and returns the sequence of calls \<open>main\<close> makes together with the
  value it returns, if it returns.

  Numbers: \<open>unsigned int\<close> is \<^typ>\<open>32 word\<close>, \<open>int\<close> is \<^typ>\<open>int\<close>. A \<open>double\<close> read from
  the clock is a \<^typ>\<open>real\<close>. Where \<open>main\<close> computes with \<open>float\<close> on a clock reading, the
  cast and the multiplications are rounded to 32-bit floats (\<open>float32\<close> below), since the
  rounding grows with the reading; \<open>float\<close> literals and the entries of the matrices are
  reals, which differ from the \<open>float\<close> values in the last place only.
\<close>

subsection \<open>Vectors and matrices (GLM)\<close>

datatype vec3 = Vec3 real real real

datatype vec4 = Vec4 real real real real

text \<open>A \<open>glm::mat4\<close> is four columns; \<open>m[i]\<close> is column \<open>i\<close>.\<close>

datatype mat4 = Mat4 vec4 vec4 vec4 vec4

fun vscale :: "vec4 \<Rightarrow> real \<Rightarrow> vec4" where
  "vscale (Vec4 x y z w) s = Vec4 (x * s) (y * s) (z * s) (w * s)"

fun vadd :: "vec4 \<Rightarrow> vec4 \<Rightarrow> vec4" where
  "vadd (Vec4 x y z w) (Vec4 x' y' z' w') = Vec4 (x + x') (y + y') (z + z') (w + w')"

text \<open>
  Modelled from the spec: GLM is a third-party library that \<open>CMakeLists.txt\<close> pulls in
  from \<open>lib/glm\<close>, and its code is not part of this source tree. The spec names the
  operations \<open>Rotate\<close>, \<open>Translate\<close> and \<open>Perspective\<close> on 4 by 4 column-major matrices;
  the five functions \<open>main\<close> uses are given here on the reals by the formulas GLM
  documents for them: \<open>glm::mat4(s)\<close> is the diagonal matrix, \<open>radians\<close> multiplies by
  \<open>\<pi>/180\<close>, \<open>rotate\<close> multiplies \<open>m\<close> on the right by the axis-angle rotation about the
  normalised axis, \<open>translate\<close> replaces the last column by
  \<open>m[0]*v.x + m[1]*v.y + m[2]*v.z + m[3]\<close>, and \<open>perspective\<close> is the right-handed
  projection onto the depth range \<open>[-1, 1]\<close>.
\<close>

definition glm_mat4 :: "real \<Rightarrow> mat4" where
  "glm_mat4 s = Mat4 (Vec4 s 0 0 0) (Vec4 0 s 0 0) (Vec4 0 0 s 0) (Vec4 0 0 0 s)"

definition glm_radians :: "real \<Rightarrow> real" where
  "glm_radians degrees = degrees * (pi / 180)"

fun glm_normalize :: "vec3 \<Rightarrow> vec3" where
  "glm_normalize (Vec3 x y z) =
     (let l = sqrt (x * x + y * y + z * z) in Vec3 (x / l) (y / l) (z / l))"

fun glm_rotate :: "mat4 \<Rightarrow> real \<Rightarrow> vec3 \<Rightarrow> mat4" where
  "glm_rotate (Mat4 m0 m1 m2 m3) angle v =
     (let c = cos angle; s = sin angle in
      case glm_normalize v of Vec3 ax ay az \<Rightarrow>
        let tx = (1 - c) * ax; ty = (1 - c) * ay; tz = (1 - c) * az;
            r00 = c + tx * ax;      r01 = tx * ay + s * az; r02 = tx * az - s * ay;
            r10 = ty * ax - s * az; r11 = c + ty * ay;      r12 = ty * az + s * ax;
            r20 = tz * ax + s * ay; r21 = tz * ay - s * ax; r22 = c + tz * az
        in Mat4 (vadd (vadd (vscale m0 r00) (vscale m1 r01)) (vscale m2 r02))
                (vadd (vadd (vscale m0 r10) (vscale m1 r11)) (vscale m2 r12))
                (vadd (vadd (vscale m0 r20) (vscale m1 r21)) (vscale m2 r22))
                m3)"

fun glm_translate :: "mat4 \<Rightarrow> vec3 \<Rightarrow> mat4" where
  "glm_translate (Mat4 m0 m1 m2 m3) (Vec3 x y z) =
     Mat4 m0 m1 m2 (vadd (vadd (vadd (vscale m0 x) (vscale m1 y)) (vscale m2 z)) m3)"

definition glm_perspective :: "real \<Rightarrow> real \<Rightarrow> real \<Rightarrow> real \<Rightarrow> mat4" where
  "glm_perspective fovy aspect zNear zFar =
     (let tanHalfFovy = tan (fovy / 2) in
      Mat4 (Vec4 (1 / (aspect * tanHalfFovy)) 0 0 0)
           (Vec4 0 (1 / tanHalfFovy) 0 0)
           (Vec4 0 0 (- (zFar + zNear) / (zFar - zNear)) (- 1))
           (Vec4 0 0 (- (2 * zFar * zNear) / (zFar - zNear)) 0))"

subsection \<open>32-bit floating point\<close>

text \<open>
  Rounding to the nearest integer, ties to the even one.
\<close>

definition round_even :: "real \<Rightarrow> int" where
  "round_even y =
     (let q = \<lfloor>y\<rfloor>; d = y - of_int q in
      if d < 1 / 2 then q else if 1 / 2 < d then q + 1 else if even q then q else q + 1)"

text \<open>
  The binary exponent of the 32-bit float format at \<open>x\<close>: that of \<open>x\<close> itself, and \<open>-126\<close>
  in the subnormal range. Neighbouring floats at \<open>x\<close> are \<open>2\<close> to the power of this exponent
  minus 23 apart.
\<close>

definition float32_exponent :: "real \<Rightarrow> int" where
  "float32_exponent x = max \<lfloor>log 2 \<bar>x\<bar>\<rfloor> (- 126)"

text \<open>
  The 32-bit float nearest to a real (IEEE 754 binary32, round to nearest, ties to even),
  before the range check.
\<close>

definition float32_nearest :: "real \<Rightarrow> real" where
  "float32_nearest x =
     (let u = 2 powr of_int (float32_exponent x - 23) in of_int (round_even (x / u)) * u)"

text \<open>
  What the cast \<open>(float)\<close> of a \<open>double\<close> and every \<open>float\<close> multiplication deliver: the
  nearest float, and \<open>None\<close> when that is not a finite number (a cast of a value out of
  range is undefined in C++, and a product out of range is an infinity).
\<close>

definition float32 :: "real \<Rightarrow> real option" where
  "float32 x = (let y = float32_nearest x in if \<bar>y\<bar> < 2 ^ 128 then Some y else None)"

text \<open>
  \<open>glm::radians\<close> on a \<open>float\<close>: one \<open>float\<close> multiplication by the \<open>float\<close> nearest to
  \<open>\<pi>/180\<close>, which is \<open>9370165 / 2^29\<close>.
\<close>

definition glm_radians_f32 :: "real \<Rightarrow> real option" where
  "glm_radians_f32 degrees = float32 (degrees * (9370165 / 536870912))"

subsection \<open>The calls \<open>main\<close> makes\<close>

datatype stream = Stdout | Stderr

text \<open>The object names \<open>main\<close> generates and keeps in its locals.\<close>

datatype gl_object = VAO | VBO | EBO | texture

datatype glenum =
    GLFW_CONTEXT_VERSION_MAJOR | GLFW_CONTEXT_VERSION_MINOR
  | GLFW_OPENGL_PROFILE | GLFW_OPENGL_CORE_PROFILE | GLFW_OPENGL_FORWARD_COMPAT
  | GLFW_KEY_ESCAPE
  | GL_TRUE | GL_FALSE
  | GL_ARRAY_BUFFER | GL_ELEMENT_ARRAY_BUFFER | GL_STATIC_DRAW
  | GL_FLOAT | GL_UNSIGNED_INT | GL_UNSIGNED_BYTE
  | GL_TEXTURE_2D | GL_TEXTURE_WRAP_S | GL_TEXTURE_WRAP_T
  | GL_TEXTURE_MIN_FILTER | GL_TEXTURE_MAG_FILTER | GL_REPEAT | GL_LINEAR | GL_RGB
  | GL_COLOR_BUFFER_BIT | GL_TRIANGLES

datatype hint_value = Num int | Sym glenum

datatype buffer_data = Floats "real list" | UInts "32 word list"

text \<open>
  How \<open>main\<close> names the shader program: the public field \<open>ourShader.ID\<close> or the result of
  \<open>ourShader.getProgram()\<close>.
\<close>

datatype program_ref = ourShader_ID | ourShader_getProgram

text \<open>
  \<open>Loc name\<close> stands for the value \<open>glGetUniformLocation\<close> returned for \<open>name\<close>, which
  \<open>main\<close> stores in a local and passes on unchanged.
\<close>

datatype location = Loc string

datatype call =
    glfwInit
  | glfwWindowHint glenum hint_value
  | glfwCreateWindow "32 word" "32 word" string
  | cout stream string
  | glfwTerminate
  | glfwMakeContextCurrent
  | glfwSetFramebufferSizeCallback
  | gladLoadGLLoader
  | Shader string string
  | glGenVertexArrays int gl_object
  | glGenBuffers int gl_object
  | glBindVertexArray gl_object
  | glBindBuffer glenum gl_object
  | glBufferData glenum nat buffer_data glenum
  | glVertexAttribPointer nat int glenum glenum nat nat
  | glEnableVertexAttribArray nat
  | glGenTextures int gl_object
  | glBindTexture glenum gl_object
  | glTexParameteri glenum glenum glenum
  | stbi_load string
  | glTexImage2D glenum int glenum int int int glenum glenum "8 word list"
  | glGenerateMipmap glenum
  | stbi_image_free "8 word list option"
  | glfwWindowShouldClose bool
  | glfwGetKey glenum
  | glfwSetWindowShouldClose bool
  | glClearColor real real real real
  | glClear glenum
  | glfwGetTime
  | glGetUniformLocation program_ref string
  | glUniformMatrix4fv location int glenum mat4
  | glUniformMatrix4fv_nan location int glenum
  | glUniform1f location "real option"
  | Shader_use
  | glDrawElements glenum int glenum nat
  | glfwSwapBuffers
  | glfwPollEvents
  | glViewport int int int int
  | glDeleteVertexArrays int gl_object
  | glDeleteBuffers int gl_object
  | glDeleteTextures int gl_object
  | glDeleteProgram program_ref

text \<open>
  \<open>cout s msg\<close> is \<open>msg\<close> followed by \<open>std::endl\<close> written to stream \<open>s\<close>. \<open>Shader vs fs\<close> is
  the constructor of \<open>ourShader\<close> and \<open>Shader_use\<close> its method \<open>use()\<close>; the class lives in
  \<open>shader.h\<close> and \<open>shader.cpp\<close>, which are not part of this source tree, so both stay
  opaque calls. \<open>glfwWindowShouldClose b\<close> records the answer \<open>b\<close> the loop condition got.
  \<open>glUniformMatrix4fv_nan\<close> is the call \<open>glUniformMatrix4fv\<close> with a matrix that has entries
  which are not finite numbers, and the value of \<open>glUniform1f\<close> is \<open>None\<close> when it is not a
  finite number. \<open>glDeleteTextures\<close> and \<open>glDeleteProgram\<close> are the release calls of
  OpenGL for a texture and a program; they are here so that properties can speak about
  them.
\<close>

subsection \<open>The environment\<close>

text \<open>What \<open>stbi_load\<close> hands back when it succeeds.\<close>

record image =
  data :: "8 word list"
  width :: int
  height :: int
  nrChannels :: int

text \<open>
  One iteration of the render loop as seen from outside: whether
  \<open>glfwGetKey(window, GLFW_KEY_ESCAPE)\<close> is \<open>GLFW_PRESS\<close>, the two readings of
  \<open>glfwGetTime()\<close>, and what \<open>glfwPollEvents\<close> delivers: the framebuffer sizes passed to
  \<open>framebuffer_size_callback\<close>, and whether the host asked the window to close.
\<close>

record frame_in =
  key_escape :: bool
  time1 :: real
  time2 :: real
  resizes :: "(int \<times> int) list"
  close_requested :: bool

record env =
  apple :: bool
  window_created :: bool
  glad_loaded :: bool
  stbi_result :: "image option"
  frames :: "frame_in list"

subsection \<open>Settings and static data\<close>

definition SCR_WIDTH :: "32 word" where "SCR_WIDTH = 800"

definition SCR_HEIGHT :: "32 word" where "SCR_HEIGHT = 600"

definition vertices :: "real list" where
  "vertices =
    [ 0.5,  0.5, 0.0,   1.0, 0.0, 0.0,   1.0, 1.0,
      0.5, -0.5, 0.0,   0.0, 1.0, 0.0,   1.0, 0.0,
     -0.5, -0.5, 0.0,   0.0, 0.0, 1.0,   0.0, 0.0,
     -0.5,  0.5, 0.0,   1.0, 1.0, 0.0,   0.0, 1.0]"

definition indices :: "32 word list" where
  "indices = [0, 1, 3,
              1, 2, 3]"

text \<open>\<open>sizeof(float)\<close> and \<open>sizeof(unsigned int)\<close> are both 4 bytes.\<close>

definition sizeof_float :: nat where "sizeof_float = 4"

definition sizeof_uint :: nat where "sizeof_uint = 4"

subsection \<open>The two helper functions\<close>

definition processInput :: "frame_in \<Rightarrow> call list" where
  "processInput f =
     glfwGetKey GLFW_KEY_ESCAPE #
     (if key_escape f then [glfwSetWindowShouldClose True] else [])"

definition framebuffer_size_callback :: "int \<Rightarrow> int \<Rightarrow> call list" where
  "framebuffer_size_callback w h = [glViewport 0 0 w h]"

subsection \<open>The matrices of one frame\<close>

text \<open>
  The four locals \<open>trans\<close>, \<open>model\<close>, \<open>view\<close> and \<open>projection\<close> of the loop body. \<open>trans\<close>
  takes the value \<open>glfwGetTime()\<close> returned. Its angle \<open>(float)glfwGetTime() * 50.0f\<close> is
  computed in \<open>float\<close>, as is its conversion to radians; when one of the three roundings
  leaves the finite numbers, so do the cosine and the sine, and \<open>trans\<close> is no matrix of
  reals.
\<close>

definition spin_degrees :: "real \<Rightarrow> real option" where
  "spin_degrees t = (case float32 t of None \<Rightarrow> None | Some a \<Rightarrow> float32 (a * 50))"

definition trans_mat :: "real \<Rightarrow> mat4 option" where
  "trans_mat t =
     (case spin_degrees t of
        None \<Rightarrow> None
      | Some d \<Rightarrow>
          (case glm_radians_f32 d of
             None \<Rightarrow> None
           | Some r \<Rightarrow> Some (glm_rotate (glm_mat4 1) r (Vec3 0 0 1))))"

definition model :: mat4 where
  "model = glm_rotate (glm_mat4 1) (glm_radians (- 55)) (Vec3 1 0 0)"

definition view :: mat4 where
  "view = glm_translate (glm_mat4 1) (Vec3 0 0 (- 3))"

definition projection :: mat4 where
  "projection = glm_perspective (glm_radians 45) (800 / 600) 0.1 100"

subsection \<open>The render loop\<close>

text \<open>The body of the \<open>while\<close> loop, top to bottom.\<close>

definition frame :: "frame_in \<Rightarrow> call list" where
  "frame f =
     processInput f @
     [glClearColor 0.2 0.3 0.3 1.0,
      glClear GL_COLOR_BUFFER_BIT,
      glBindTexture GL_TEXTURE_2D texture,
      glfwGetTime,
      glGetUniformLocation ourShader_ID ''model'',
      glGetUniformLocation ourShader_ID ''view'',
      glGetUniformLocation ourShader_ID ''projection'',
      glUniformMatrix4fv (Loc ''model'') 1 GL_FALSE model,
      glUniformMatrix4fv (Loc ''view'') 1 GL_FALSE view,
      glUniformMatrix4fv (Loc ''projection'') 1 GL_FALSE projection,
      Shader_use,
      glGetUniformLocation ourShader_getProgram ''time'',
      glGetUniformLocation ourShader_ID ''transform'',
      (case trans_mat (time1 f) of
         Some m \<Rightarrow> glUniformMatrix4fv (Loc ''transform'') 1 GL_FALSE m
       | None \<Rightarrow> glUniformMatrix4fv_nan (Loc ''transform'') 1 GL_FALSE),
      glfwGetTime,
      glUniform1f (Loc ''time'') (float32 (time2 f)),
      glBindVertexArray VAO,
      glDrawElements GL_TRIANGLES 6 GL_UNSIGNED_INT 0,
      glfwSwapBuffers,
      glfwPollEvents] @
     concat (map (\<lambda>(w, h). framebuffer_size_callback w h) (resizes f))"

text \<open>
  \<open>while (!glfwWindowShouldClose(window)) { ... }\<close>. The first argument is the window's
  close flag; \<open>processInput\<close> sets it when the escape key is down and \<open>glfwPollEvents\<close> sets
  it when the host asks to close. The loop ends only when the flag is set: the result says
  whether that happened within the iterations the environment describes.
\<close>

fun render_loop :: "bool \<Rightarrow> frame_in list \<Rightarrow> call list \<times> bool" where
  "render_loop True fs = ([glfwWindowShouldClose True], True)"
| "render_loop False [] = ([], False)"
| "render_loop False (f # fs) =
     (case render_loop (key_escape f \<or> close_requested f) fs of
        (tr, quit) \<Rightarrow> (glfwWindowShouldClose False # frame f @ tr, quit))"

subsection \<open>\<open>main\<close>\<close>

definition window_setup :: "env \<Rightarrow> call list" where
  "window_setup e =
     [glfwInit,
      glfwWindowHint GLFW_CONTEXT_VERSION_MAJOR (Num 3),
      glfwWindowHint GLFW_CONTEXT_VERSION_MINOR (Num 3),
      glfwWindowHint GLFW_OPENGL_PROFILE (Sym GLFW_OPENGL_CORE_PROFILE)] @
     (if apple e then [glfwWindowHint GLFW_OPENGL_FORWARD_COMPAT (Sym GL_TRUE)] else []) @
     [glfwCreateWindow SCR_WIDTH SCR_HEIGHT ''LearnOpenGL'']"

definition geometry_setup :: "call list" where
  "geometry_setup =
     [Shader ''4.1.texturevs.txt'' ''4.1.texturefs.txt'',
      glGenVertexArrays 1 VAO,
      glGenBuffers 1 VBO,
      glGenBuffers 1 EBO,
      glBindVertexArray VAO,
      glBindBuffer GL_ARRAY_BUFFER VBO,
      glBufferData GL_ARRAY_BUFFER (length vertices * sizeof_float) (Floats vertices)
        GL_STATIC_DRAW,
      glBindBuffer GL_ELEMENT_ARRAY_BUFFER EBO,
      glBufferData GL_ELEMENT_ARRAY_BUFFER (length indices * sizeof_uint) (UInts indices)
        GL_STATIC_DRAW,
      glVertexAttribPointer 0 3 GL_FLOAT GL_FALSE (8 * sizeof_float) 0,
      glEnableVertexAttribArray 0,
      glVertexAttribPointer 1 3 GL_FLOAT GL_FALSE (8 * sizeof_float) (3 * sizeof_float),
      glEnableVertexAttribArray 1,
      glVertexAttribPointer 2 2 GL_FLOAT GL_FALSE (8 * sizeof_float) (6 * sizeof_float),
      glEnableVertexAttribArray 2]"

definition texture_setup :: "image option \<Rightarrow> call list" where
  "texture_setup img =
     [glGenTextures 1 texture,
      glBindTexture GL_TEXTURE_2D texture,
      glTexParameteri GL_TEXTURE_2D GL_TEXTURE_WRAP_S GL_REPEAT,
      glTexParameteri GL_TEXTURE_2D GL_TEXTURE_WRAP_T GL_REPEAT,
      glTexParameteri GL_TEXTURE_2D GL_TEXTURE_MIN_FILTER GL_LINEAR,
      glTexParameteri GL_TEXTURE_2D GL_TEXTURE_MAG_FILTER GL_LINEAR,
      stbi_load ''container.jpg''] @
     (case img of
        Some i \<Rightarrow>
          [glTexImage2D GL_TEXTURE_2D 0 GL_RGB (width i) (height i) 0 GL_RGB
             GL_UNSIGNED_BYTE (data i),
           glGenerateMipmap GL_TEXTURE_2D]
      | None \<Rightarrow> [cout Stdout ''Failed to load texture'']) @
     [stbi_image_free (map_option data img)]"

definition shutdown :: "call list" where
  "shutdown =
     [glDeleteVertexArrays 1 VAO,
      glDeleteBuffers 1 VBO,
      glDeleteBuffers 1 EBO,
      glfwTerminate]"

text \<open>
  \<open>main\<close>: the calls made, and the value returned (\<open>None\<close> while the loop is still running
  at the end of the environment's frames).
\<close>

definition main :: "env \<Rightarrow> call list \<times> int option" where
  "main e =
     (if \<not> window_created e then
        (window_setup e @ [cout Stdout ''Failed to create GLFW window'', glfwTerminate],
         Some (- 1))
      else if \<not> glad_loaded e then
        (window_setup e @
         [glfwMakeContextCurrent, glfwSetFramebufferSizeCallback, gladLoadGLLoader,
          cout Stdout ''Failed to initialize GLAD''],
         Some (- 1))
      else
        (case render_loop False (frames e) of
           (tr, quit) \<Rightarrow>
             (window_setup e @
              [glfwMakeContextCurrent, glfwSetFramebufferSizeCallback, gladLoadGLLoader] @
              geometry_setup @ texture_setup (stbi_result e) @ tr @
              (if quit then shutdown else []),
              if quit then Some 0 else None)))"

subsection \<open>Reading a run\<close>

text \<open>
  The iterations the loop really executes: it stops at the first check that finds the close
  flag set, so frames of the environment after that one are never run.
\<close>

fun executed :: "bool \<Rightarrow> frame_in list \<Rightarrow> frame_in list" where
  "executed True fs = []"
| "executed False [] = []"
| "executed False (f # fs) = f # executed (key_escape f \<or> close_requested f) fs"

definition frames_run :: "env \<Rightarrow> frame_in list" where
  "frames_run e =
     (if window_created e \<and> glad_loaded e then executed False (frames e) else [])"

text \<open>The messages written to a stream, in order.\<close>

definition written :: "stream \<Rightarrow> call list \<Rightarrow> string list" where
  "written s tr =
     concat (map (\<lambda>c. case c of cout s' msg \<Rightarrow> if s' = s then [msg] else [] | _ \<Rightarrow> []) tr)"

text \<open>The matrices uploaded to the uniform of a given name, in order.\<close>

definition uploads :: "string \<Rightarrow> call list \<Rightarrow> mat4 list" where
  "uploads name tr =
     concat (map (\<lambda>c. case c of
                         glUniformMatrix4fv l n t m \<Rightarrow> if l = Loc name then [m] else []
                       | _ \<Rightarrow> []) tr)"


text \<open>The GPU resources of the program, and the ones a trace releases explicitly.\<close>

datatype resource = Object gl_object | Program

definition released :: "call list \<Rightarrow> resource list" where
  "released tr =
     concat (map (\<lambda>c. case c of
                         glDeleteVertexArrays n ob \<Rightarrow> [Object ob]
                       | glDeleteBuffers n ob \<Rightarrow> [Object ob]
                       | glDeleteTextures n ob \<Rightarrow> [Object ob]
                       | glDeleteProgram p \<Rightarrow> [Program]
                       | _ \<Rightarrow> []) tr)"

text \<open>The indexed draw calls, the texture-image uploads and the calls of a given kind.\<close>

definition draws :: "call list \<Rightarrow> call list" where
  "draws tr = filter (\<lambda>c. case c of glDrawElements m n t off \<Rightarrow> True | _ \<Rightarrow> False) tr"

definition texture_images :: "call list \<Rightarrow> call list" where
  "texture_images tr =
     filter (\<lambda>c. case c of glTexImage2D t l f w h b f' t' d \<Rightarrow> True | _ \<Rightarrow> False) tr"

definition window_creations :: "call list \<Rightarrow> call list" where
  "window_creations tr =
     filter (\<lambda>c. case c of glfwCreateWindow w h t \<Rightarrow> True | _ \<Rightarrow> False) tr"

text \<open>
  The framebuffer size in force along a trace: the size last passed to
  \<open>framebuffer_size_callback\<close>, which hands it to \<open>glViewport\<close>; before the first such call,
  the size \<open>fb\<close> the window started with. \<open>projections_seen\<close> pairs every upload to the
  \<open>projection\<close> uniform with the framebuffer size in force at that moment.
\<close>

fun projections_seen :: "int \<times> int \<Rightarrow> call list \<Rightarrow> ((int \<times> int) \<times> mat4) list" where
  "projections_seen fb [] = []"
| "projections_seen fb (c # cs) =
     (case c of
        glViewport x y w h \<Rightarrow> projections_seen (w, h) cs
      | glUniformMatrix4fv l n t m \<Rightarrow>
          (if l = Loc ''projection'' then [(fb, m)] else []) @ projections_seen fb cs
      | _ \<Rightarrow> projections_seen fb cs)"

text \<open>
  Every uniform upload of a trace, by the name of its uniform, with the number of calls of
  \<open>use()\<close> made before it (counting from \<open>k\<close>).
\<close>

fun upload_log :: "nat \<Rightarrow> call list \<Rightarrow> (string \<times> nat) list" where
  "upload_log k [] = []"
| "upload_log k (c # cs) =
     (case c of
        Shader_use \<Rightarrow> upload_log (Suc k) cs
      | glUniformMatrix4fv (Loc name) n t m \<Rightarrow> (name, k) # upload_log k cs
      | glUniformMatrix4fv_nan (Loc name) n t \<Rightarrow> (name, k) # upload_log k cs
      | glUniform1f (Loc name) x \<Rightarrow> (name, k) # upload_log k cs
      | _ \<Rightarrow> upload_log k cs)"

fun uses_after :: "nat \<Rightarrow> call list \<Rightarrow> nat" where
  "uses_after k [] = k"
| "uses_after k (c # cs) =
     (case c of Shader_use \<Rightarrow> uses_after (Suc k) cs | _ \<Rightarrow> uses_after k cs)"

text \<open>
  Modelled from the spec: \<open>shader.h\<close> is not part of this source tree, and the spec lists
  \<open>use(program)\<close> among the operations of the shader collaborator, the one that makes the
  program active. A uniform upload goes to the program active at that moment.
  \<open>upload_targets ours p tr\<close> pairs every uniform upload of \<open>tr\<close> with its target, where \<open>p\<close>
  is the program active at the start and \<open>ours\<close> the one \<open>use()\<close> activates.
\<close>

fun upload_targets :: "'p \<Rightarrow> 'p \<Rightarrow> call list \<Rightarrow> (string \<times> 'p) list" where
  "upload_targets ours p [] = []"
| "upload_targets ours p (c # cs) =
     (case c of
        Shader_use \<Rightarrow> upload_targets ours ours cs
      | glUniformMatrix4fv (Loc name) n t m \<Rightarrow> (name, p) # upload_targets ours p cs
      | glUniformMatrix4fv_nan (Loc name) n t \<Rightarrow> (name, p) # upload_targets ours p cs
      | glUniform1f (Loc name) x \<Rightarrow> (name, p) # upload_targets ours p cs
      | _ \<Rightarrow> upload_targets ours p cs)"

text \<open>
  What an indexed draw reads: \<open>count\<close> indices of the element buffer from byte offset
  \<open>off\<close> on, and with \<open>GL_TRIANGLES\<close> every three of them in a row make one triangle.
\<close>

definition fetched :: "32 word list \<Rightarrow> call \<Rightarrow> 32 word list" where
  "fetched buf c =
     (case c of
        glDrawElements m count t off \<Rightarrow> take (nat count) (drop (off div sizeof_uint) buf)
      | _ \<Rightarrow> [])"

fun triangles :: "'a list \<Rightarrow> ('a \<times> 'a \<times> 'a) list" where
  "triangles (a # b # c # xs) = (a, b, c) # triangles xs"
| "triangles xs = []"

text \<open>The element buffer a trace uploads (the last upload to \<open>GL_ELEMENT_ARRAY_BUFFER\<close>).\<close>

fun element_buffer :: "32 word list \<Rightarrow> call list \<Rightarrow> 32 word list" where
  "element_buffer buf [] = buf"
| "element_buffer buf (c # cs) =
     (case c of
        glBufferData target n (UInts xs) usage \<Rightarrow>
          element_buffer (if target = GL_ELEMENT_ARRAY_BUFFER then xs else buf) cs
      | _ \<Rightarrow> element_buffer buf cs)"

subsection \<open>Some concrete environments\<close>

definition env_no_window :: env where
  "env_no_window =
     \<lparr>apple = False, window_created = False, glad_loaded = False, stbi_result = None,
      frames = []\<rparr>"

definition env_no_glad :: env where
  "env_no_glad =
     \<lparr>apple = False, window_created = True, glad_loaded = False, stbi_result = None,
      frames = []\<rparr>"

text \<open>
  Two iterations without a texture file: the window is resized to 600 by 600 during the
  first, and the escape key is down in the second, at 3.6 seconds.
\<close>

definition env_two_frames :: env where
  "env_two_frames =
     \<lparr>apple = False, window_created = True, glad_loaded = True, stbi_result = None,
      frames =
        [\<lparr>key_escape = False, time1 = 0, time2 = 0, resizes = [(600, 600)],
          close_requested = False\<rparr>,
         \<lparr>key_escape = True, time1 = 3.6, time2 = 3.6, resizes = [],
          close_requested = False\<rparr>]\<rparr>"

section \<open>The structure of a run\<close>

text \<open>
  The trace of the loop is one block per executed iteration (the loop check that found the
  flag clear, then the body), followed by the check that found it set if the loop ended.
\<close>

lemma render_loop_trace:
  "fst (render_loop flag fs) =
     concat (map (\<lambda>f. glfwWindowShouldClose False # frame f) (executed flag fs)) @
     (if snd (render_loop flag fs) then [glfwWindowShouldClose True] else [])"
  by (induction flag fs rule: render_loop.induct) (auto split: prod.splits)

lemma render_loop_quit:
  "snd (render_loop flag fs) \<longleftrightarrow>
     (flag \<or> (\<exists>f \<in> set fs. key_escape f \<or> close_requested f))"
  by (induction flag fs rule: render_loop.induct) (auto split: prod.splits)

lemma main_exit:
  "snd (main e) =
     (if \<not> window_created e \<or> \<not> glad_loaded e then Some (- 1)
      else if snd (render_loop False (frames e)) then Some 0 else None)"
  by (cases "render_loop False (frames e)") (simp add: main_def)

lemma main_trace:
  assumes "window_created e" "glad_loaded e"
  shows "fst (main e) =
     window_setup e @
     [glfwMakeContextCurrent, glfwSetFramebufferSizeCallback, gladLoadGLLoader] @
     geometry_setup @ texture_setup (stbi_result e) @
     concat (map (\<lambda>f. glfwWindowShouldClose False # frame f) (frames_run e)) @
     (if snd (main e) = Some 0 then glfwWindowShouldClose True # shutdown else [])"
proof (cases "render_loop False (frames e)")
  case (Pair tr quit)
  with render_loop_trace [of False "frames e"] assms show ?thesis
    by (simp add: main_def frames_run_def)
qed

lemmas parts_defs =
  window_setup_def geometry_setup_def texture_setup_def shutdown_def

lemmas frame_defs = frame_def processInput_def

subsection \<open>Matrix uploads\<close>

lemma uploads_simps:
  "uploads name [] = []"
  "uploads name (c # cs) =
     (case c of glUniformMatrix4fv l n t m \<Rightarrow> if l = Loc name then [m] else [] | _ \<Rightarrow> []) @
     uploads name cs"
  "uploads name (a @ b) = uploads name a @ uploads name b"
  by (simp_all add: uploads_def)

lemma uploads_callbacks:
  "uploads name (concat (map (\<lambda>(w, h). framebuffer_size_callback w h) rs)) = []"
  by (induction rs) (auto simp: uploads_simps framebuffer_size_callback_def)

lemma uploads_frames:
  "uploads name (concat (map (\<lambda>f. glfwWindowShouldClose False # frame f) fs)) =
   concat (map (\<lambda>f. uploads name (frame f)) fs)"
  by (induction fs) (simp_all add: uploads_simps)

lemma uploads_parts:
  "uploads name (window_setup e) = []" "uploads name geometry_setup = []"
  "uploads name (texture_setup img) = []" "uploads name shutdown = []"
  by (simp_all add: parts_defs uploads_simps split: option.splits)

lemma uploads_main:
  "uploads name (fst (main e)) = concat (map (\<lambda>f. uploads name (frame f)) (frames_run e))"
proof (cases "window_created e \<and> glad_loaded e")
  case True
  then show ?thesis
    by (simp add: main_trace uploads_simps uploads_parts uploads_frames)
next
  case False
  then show ?thesis
    by (auto simp: main_def frames_run_def uploads_simps uploads_parts)
qed

lemma uploads_frame:
  "uploads ''model'' (frame f) = [model]"
  "uploads ''view'' (frame f) = [view]"
  "uploads ''projection'' (frame f) = [projection]"
  by (simp_all add: frame_defs uploads_simps uploads_callbacks split: option.splits)

lemma frames_run_two:
  "frames_run env_two_frames =
     [\<lparr>key_escape = False, time1 = 0, time2 = 0, resizes = [(600, 600)],
       close_requested = False\<rparr>,
      \<lparr>key_escape = True, time1 = 3.6, time2 = 3.6, resizes = [],
       close_requested = False\<rparr>]"
  by (simp add: frames_run_def env_two_frames_def)

lemma concat_map_single: "concat (map (\<lambda>x. [g x]) xs) = map g xs"
  by (induction xs) simp_all

lemma map_const_replicate: "map (\<lambda>x. c) xs = replicate (length xs) c"
  by (induction xs) simp_all

subsection \<open>Messages\<close>

lemma written_simps:
  "written s [] = []"
  "written s (c # cs) =
     (case c of cout s' msg \<Rightarrow> if s' = s then [msg] else [] | _ \<Rightarrow> []) @ written s cs"
  "written s (a @ b) = written s a @ written s b"
  by (simp_all add: written_def)

lemma written_callbacks:
  "written s (concat (map (\<lambda>(w, h). framebuffer_size_callback w h) rs)) = []"
  by (induction rs) (auto simp: written_simps framebuffer_size_callback_def)

lemma written_frames:
  "written s (concat (map (\<lambda>f. glfwWindowShouldClose False # frame f) fs)) = []"
  by (induction fs)
     (simp_all add: written_simps frame_defs written_callbacks split: option.splits)

lemma written_parts:
  "written s (window_setup e) = []" "written s geometry_setup = []"
  "written s shutdown = []"
  "written s (texture_setup img) =
     (if img = None \<and> s = Stdout then [''Failed to load texture''] else [])"
  by (simp_all add: parts_defs written_simps split: option.splits)

lemma written_main:
  "written s (fst (main e)) =
     (if s = Stderr then []
      else if \<not> window_created e then [''Failed to create GLFW window'']
      else if \<not> glad_loaded e then [''Failed to initialize GLAD'']
      else if stbi_result e = None then [''Failed to load texture'']
      else [])"
proof (cases "window_created e \<and> glad_loaded e")
  case True
  then have "written s (fst (main e)) = written s (texture_setup (stbi_result e))"
    by (simp add: main_trace written_simps written_parts written_frames)
  with True show ?thesis
    by (cases s) (simp_all add: written_parts)
next
  case False
  then show ?thesis
    by (cases s) (auto simp: main_def written_simps written_parts)
qed

subsection \<open>Draw calls, texture images, releases, the element buffer\<close>

lemma callbacks_filter:
  "(\<And>w h. \<not> P (glViewport 0 0 w h)) \<Longrightarrow>
   filter P (concat (map (\<lambda>(w, h). framebuffer_size_callback w h) rs)) = []"
  by (induction rs) (auto simp: framebuffer_size_callback_def)

lemma draws_simps:
  "draws [] = []"
  "draws (c # cs) =
     (if (case c of glDrawElements m n t off \<Rightarrow> True | _ \<Rightarrow> False) then c # draws cs
      else draws cs)"
  "draws (a @ b) = draws a @ draws b"
  by (simp_all add: draws_def)

lemma draws_callbacks:
  "draws (concat (map (\<lambda>(w, h). framebuffer_size_callback w h) rs)) = []"
  by (simp add: draws_def callbacks_filter)

lemma draws_frames:
  "draws (concat (map (\<lambda>f. glfwWindowShouldClose False # frame f) fs)) =
   replicate (length fs) (glDrawElements GL_TRIANGLES 6 GL_UNSIGNED_INT 0)"
  by (induction fs)
     (simp_all add: draws_simps frame_defs draws_callbacks split: option.splits)

lemma draws_parts:
  "draws (window_setup e) = []" "draws geometry_setup = []"
  "draws (texture_setup img) = []" "draws shutdown = []"
  by (simp_all add: parts_defs draws_simps split: option.splits)

lemma draws_main:
  "draws (fst (main e)) =
     replicate (length (frames_run e)) (glDrawElements GL_TRIANGLES 6 GL_UNSIGNED_INT 0)"
proof (cases "window_created e \<and> glad_loaded e")
  case True
  then show ?thesis
    by (simp add: main_trace draws_simps draws_parts draws_frames)
next
  case False
  then show ?thesis
    by (auto simp: main_def frames_run_def draws_simps draws_parts)
qed

lemma texture_images_simps:
  "texture_images [] = []"
  "texture_images (c # cs) =
     (if (case c of glTexImage2D t l f w h b f' t' d \<Rightarrow> True | _ \<Rightarrow> False)
      then c # texture_images cs else texture_images cs)"
  "texture_images (a @ b) = texture_images a @ texture_images b"
  by (simp_all add: texture_images_def)

lemma texture_images_callbacks:
  "texture_images (concat (map (\<lambda>(w, h). framebuffer_size_callback w h) rs)) = []"
  by (simp add: texture_images_def callbacks_filter)

lemma texture_images_frames:
  "texture_images (concat (map (\<lambda>f. glfwWindowShouldClose False # frame f) fs)) = []"
  by (induction fs)
     (simp_all add: texture_images_simps frame_defs texture_images_callbacks
        split: option.splits)

lemma texture_images_parts:
  "texture_images (window_setup e) = []" "texture_images geometry_setup = []"
  "texture_images (texture_setup None) = []" "texture_images shutdown = []"
  by (simp_all add: parts_defs texture_images_simps)

lemma texture_images_main:
  assumes "stbi_result e = None"
  shows "texture_images (fst (main e)) = []"
proof (cases "window_created e \<and> glad_loaded e")
  case True
  with assms show ?thesis
    by (simp add: main_trace texture_images_simps texture_images_parts texture_images_frames)
next
  case False
  then show ?thesis
    by (auto simp: main_def texture_images_simps texture_images_parts)
qed

lemma released_simps:
  "released [] = []"
  "released (c # cs) =
     (case c of
        glDeleteVertexArrays n ob \<Rightarrow> [Object ob]
      | glDeleteBuffers n ob \<Rightarrow> [Object ob]
      | glDeleteTextures n ob \<Rightarrow> [Object ob]
      | glDeleteProgram p \<Rightarrow> [Program]
      | _ \<Rightarrow> []) @ released cs"
  "released (a @ b) = released a @ released b"
  by (simp_all add: released_def)

lemma element_buffer_append:
  "element_buffer buf (a @ b) = element_buffer (element_buffer buf a) b"
  by (induction a arbitrary: buf)
     (simp_all split: call.splits buffer_data.splits)

lemma element_buffer_callbacks:
  "element_buffer buf (concat (map (\<lambda>(w, h). framebuffer_size_callback w h) rs)) = buf"
  by (induction rs) (auto simp: framebuffer_size_callback_def)

lemma element_buffer_frames:
  "element_buffer buf (concat (map (\<lambda>f. glfwWindowShouldClose False # frame f) fs)) = buf"
  by (induction fs)
     (simp_all add: element_buffer_append frame_defs element_buffer_callbacks
        split: option.splits)

lemma element_buffer_parts:
  "element_buffer buf (window_setup e) = buf" "element_buffer buf geometry_setup = indices"
  "element_buffer buf (texture_setup img) = buf" "element_buffer buf shutdown = buf"
  by (simp_all add: parts_defs split: option.splits)

lemma element_buffer_main:
  assumes "window_created e" "glad_loaded e"
  shows "element_buffer buf (fst (main e)) = indices"
  using assms
  by (simp add: main_trace element_buffer_append element_buffer_parts element_buffer_frames)

lemma executed_nonempty: "fs \<noteq> [] \<Longrightarrow> executed False fs \<noteq> []"
  by (cases fs) simp_all

lemma exit_two_frames: "snd (main env_two_frames) = Some 0"
  by (simp add: main_exit render_loop_quit env_two_frames_def)

subsection \<open>Projections and the framebuffer size\<close>

lemma tan_pi_8_pos: "0 < tan (pi / 8)"
  by (rule tan_gt_zero) simp_all

subsection \<open>Uniform uploads and \<open>use()\<close>\<close>

lemma upload_log_append:
  "upload_log k (a @ b) = upload_log k a @ upload_log (uses_after k a) b"
  by (induction a arbitrary: k) (simp_all split: call.splits location.splits)

lemma uses_after_append: "uses_after k (a @ b) = uses_after (uses_after k a) b"
  by (induction a arbitrary: k) (simp_all split: call.splits)

lemma callbacks_log:
  "upload_log k (concat (map (\<lambda>(w, h). framebuffer_size_callback w h) rs)) = []"
  "uses_after k (concat (map (\<lambda>(w, h). framebuffer_size_callback w h) rs)) = k"
  by (induction rs) (auto simp: framebuffer_size_callback_def)

lemma frame_log:
  "upload_log k (frame f) =
     [(''model'', k), (''view'', k), (''projection'', k),
      (''transform'', Suc k), (''time'', Suc k)]"
  "uses_after k (frame f) = Suc k"
  by (simp_all add: frame_defs upload_log_append uses_after_append callbacks_log
      split: option.splits)

lemma frames_uses:
  "uses_after k (concat (map (\<lambda>f. glfwWindowShouldClose False # frame f) fs)) =
     k + length fs"
  by (induction fs arbitrary: k) (simp_all add: uses_after_append frame_log)

lemma frames_log:
  "upload_log k (concat (map (\<lambda>f. glfwWindowShouldClose False # frame f) fs)) =
     concat (map (\<lambda>j. [(''model'', j), (''view'', j), (''projection'', j),
                       (''transform'', Suc j), (''time'', Suc j)]) [k..<k + length fs])"
proof (induction fs arbitrary: k)
  case Nil
  show ?case by simp
next
  case (Cons f fs)
  have "[k..<k + length (f # fs)] = k # [Suc k..<Suc k + length fs]"
    by (simp add: upt_rec)
  with Cons [of "Suc k"] show ?case
    by (simp add: upload_log_append frame_log)
qed

lemma parts_log:
  "upload_log k (window_setup e) = []" "uses_after k (window_setup e) = k"
  "upload_log k geometry_setup = []" "uses_after k geometry_setup = k"
  "upload_log k (texture_setup img) = []" "uses_after k (texture_setup img) = k"
  "upload_log k shutdown = []"
  by (simp_all add: parts_defs split: option.splits)

lemma main_log:
  "upload_log 0 (fst (main e)) =
     concat (map (\<lambda>j. [(''model'', j), (''view'', j), (''projection'', j),
                       (''transform'', Suc j), (''time'', Suc j)])
               [0..<length (frames_run e)])"
proof (cases "window_created e \<and> glad_loaded e")
  case True
  then show ?thesis
    using frames_log [of 0 "frames_run e"]
    by (simp add: main_trace upload_log_append uses_after_append parts_log)
next
  case False
  then show ?thesis
    by (auto simp: main_def frames_run_def upload_log_append parts_log)
qed

lemma upload_log_lower: "(name, j) \<in> set (upload_log k tr) \<Longrightarrow> k \<le> j"
proof (induction tr arbitrary: k)
  case Nil
  then show ?case by simp
next
  case (Cons c tr)
  show ?case
  proof (cases "c = Shader_use")
    case True
    with Cons.prems have "(name, j) \<in> set (upload_log (Suc k) tr)"
      by simp
    from Cons.IH [OF this] show ?thesis
      by simp
  next
    case False
    with Cons.prems have "(name, j) \<in> set (upload_log k tr) \<or> j = k"
      by (auto split: call.splits location.splits)
    with Cons.IH [of k] show ?thesis
      by auto
  qed
qed

lemma upload_targets_log:
  "upload_targets ours q tr =
     map (\<lambda>(name, j). (name, if j = k then q else ours)) (upload_log k tr)"
proof (induction tr arbitrary: q k)
  case Nil
  show ?case by simp
next
  case (Cons c tr)
  show ?case
  proof (cases "c = Shader_use")
    case True
    have "map (\<lambda>(name, j). (name, if j = k then q else ours)) (upload_log (Suc k) tr) =
          map (\<lambda>(name, j). (name, if j = Suc k then ours else ours)) (upload_log (Suc k) tr)"
      by (rule map_cong) (auto dest: upload_log_lower)
    with True Cons [of ours "Suc k"] show ?thesis
      by simp
  next
    case False
    with Cons [of q k] show ?thesis
      by (simp split: call.splits location.splits)
  qed
qed

subsection \<open>Rounding to 32-bit floats\<close>








subsection \<open>The spin at given times\<close>
















subsection \<open>Uploads of the spin\<close>






section \<open>The transform pipeline\<close>






text \<open>
  Claim C5. In every run, every iteration uploads the same \<open>model\<close> matrix, the identity
  rotated by \<open>-55\<close> degrees about \<open>(1, 0, 0)\<close>, and the same \<open>view\<close> matrix, the identity
  translated by \<open>(0, 0, -3)\<close>, whatever the clock says: the lists of uploads are constant
  lists with one entry per executed iteration. Both matrices are given entry by entry.
\<close>

theorem model_and_view_constant:
  "uploads ''model'' (fst (main e)) =
     replicate (length (frames_run e))
       (glm_rotate (glm_mat4 1) (glm_radians (- 55)) (Vec3 1 0 0))
   \<and> uploads ''view'' (fst (main e)) =
     replicate (length (frames_run e)) (glm_translate (glm_mat4 1) (Vec3 0 0 (- 3)))
   \<and> glm_translate (glm_mat4 1) (Vec3 0 0 (- 3)) =
       Mat4 (Vec4 1 0 0 0) (Vec4 0 1 0 0) (Vec4 0 0 1 0) (Vec4 0 0 (- 3) 1)
   \<and> glm_rotate (glm_mat4 1) (glm_radians (- 55)) (Vec3 1 0 0) =
       Mat4 (Vec4 1 0 0 0)
            (Vec4 0 (cos (55 * pi / 180)) (- sin (55 * pi / 180)) 0)
            (Vec4 0 (sin (55 * pi / 180)) (cos (55 * pi / 180)) 0)
            (Vec4 0 0 0 1)"
proof -
  have "uploads ''model'' (fst (main e)) = replicate (length (frames_run e)) model"
    by (simp add: uploads_main uploads_frame concat_map_single map_const_replicate)
  moreover have "uploads ''view'' (fst (main e)) = replicate (length (frames_run e)) view"
    by (simp add: uploads_main uploads_frame concat_map_single map_const_replicate)
  moreover have "glm_translate (glm_mat4 1) (Vec3 0 0 (- 3)) =
       Mat4 (Vec4 1 0 0 0) (Vec4 0 1 0 0) (Vec4 0 0 1 0) (Vec4 0 0 (- 3) 1)"
    by (simp add: glm_mat4_def)
  moreover have "glm_rotate (glm_mat4 1) (glm_radians (- 55)) (Vec3 1 0 0) =
       Mat4 (Vec4 1 0 0 0)
            (Vec4 0 (cos (55 * pi / 180)) (- sin (55 * pi / 180)) 0)
            (Vec4 0 (sin (55 * pi / 180)) (cos (55 * pi / 180)) 0)
            (Vec4 0 0 0 1)"
    by (simp add: glm_mat4_def glm_radians_def Let_def)
  ultimately show ?thesis
    by (simp add: model_def view_def)
qed

theorem model_and_view_constant_witness:
  "uploads ''model'' (fst (main env_two_frames)) =
     [glm_rotate (glm_mat4 1) (glm_radians (- 55)) (Vec3 1 0 0),
      glm_rotate (glm_mat4 1) (glm_radians (- 55)) (Vec3 1 0 0)]
   \<and> uploads ''view'' (fst (main env_two_frames)) =
     [Mat4 (Vec4 1 0 0 0) (Vec4 0 1 0 0) (Vec4 0 0 1 0) (Vec4 0 0 (- 3) 1),
      Mat4 (Vec4 1 0 0 0) (Vec4 0 1 0 0) (Vec4 0 0 1 0) (Vec4 0 0 (- 3) 1)]"
  using model_and_view_constant [of env_two_frames]
  by (simp add: frames_run_two)


text \<open>
  Claim C1 asks for a projection whose aspect term is the current framebuffer width
  divided by the current height, so that a resize changes it on the next frame; the
  comments of \<open>main.cpp\<close> describe the aspect ratio in the same way. The code passes the
  literal \<open>800.0f / 600.0f\<close> instead. In the run of \<open>env_two_frames\<close> the framebuffer is
  resized to 600 by 600 during the first iteration, and the second iteration still uploads
  the projection for \<open>800 / 600\<close>, which is not the projection for \<open>600 / 600\<close>.
\<close>

theorem projection_ignores_resize:
  "projections_seen (800, 600) (fst (main env_two_frames)) =
     [((800, 600), glm_perspective (glm_radians 45) (800 / 600) 0.1 100),
      ((600, 600), glm_perspective (glm_radians 45) (800 / 600) 0.1 100)]
   \<and> glm_perspective (glm_radians 45) (800 / 600) 0.1 100 \<noteq>
       glm_perspective (glm_radians 45) (600 / 600) 0.1 100"
proof -
  have "projections_seen (800, 600) (fst (main env_two_frames)) =
     [((800, 600), projection), ((600, 600), projection)]"
    by (simp add: main_def env_two_frames_def parts_defs frame_defs
        framebuffer_size_callback_def split: option.splits)
  moreover have "glm_perspective (glm_radians 45) (800 / 600) 0.1 100 \<noteq>
       glm_perspective (glm_radians 45) (600 / 600) 0.1 100"
    using tan_pi_8_pos by (simp add: glm_perspective_def glm_radians_def Let_def field_simps)
  ultimately show ?thesis
    by (simp add: projection_def)
qed

section \<open>Start-up failures and the exit code\<close>

text \<open>
  Claim C6. \<open>main\<close> has no parameters (the model's only argument is the environment), and
  its return value is fully determined: \<open>-1\<close> when the window could not be created or the
  OpenGL function pointers could not be loaded, \<open>0\<close> when both succeeded and some iteration
  raised the close flag (escape key down, or a close request delivered by
  \<open>glfwPollEvents\<close>), and no return at all while no iteration has raised it. The exit
  code is the value \<open>main\<close> returns. So a run with
  a close signal does return, and no value other than \<open>0\<close> and \<open>-1\<close> is ever returned.
\<close>

theorem exit_codes:
  "snd (main e) =
     (if \<not> window_created e \<or> \<not> glad_loaded e then Some (- 1)
      else if \<exists>f \<in> set (frames e). key_escape f \<or> close_requested f then Some 0
      else None)
   \<and> (\<forall>c. snd (main e) = Some c \<longrightarrow> c = 0 \<or> c = - 1)"
  by (simp add: main_exit render_loop_quit)

theorem exit_codes_witness:
  "snd (main env_two_frames) = Some 0 \<and> snd (main env_no_window) = Some (- 1)
   \<and> snd (main env_no_glad) = Some (- 1)"
  using exit_codes [of env_two_frames] exit_codes [of env_no_window]
    exit_codes [of env_no_glad]
  by (simp add: env_two_frames_def env_no_window_def env_no_glad_def)


text \<open>
  Claim C3, as the code has it. When the window cannot be created or the function pointers
  cannot be loaded, \<open>main\<close> writes exactly one message, to the standard output stream
  (\<open>std::cout\<close>) and nothing to the standard error stream, and then returns \<open>-1\<close>, which is
  not zero; the only call after the message is \<open>glfwTerminate\<close> in the first case. Nothing is
  retried: \<open>glfwCreateWindow\<close> is called once and \<open>gladLoadGLLoader\<close> at most once.
\<close>

theorem init_failure_reported_on_stdout:
  assumes "\<not> window_created e \<or> \<not> glad_loaded e"
  shows "fst (main e) =
       window_setup e @
       (if \<not> window_created e
        then [cout Stdout ''Failed to create GLFW window'', glfwTerminate]
        else [glfwMakeContextCurrent, glfwSetFramebufferSizeCallback, gladLoadGLLoader,
              cout Stdout ''Failed to initialize GLAD''])
     \<and> written Stdout (fst (main e)) =
         [if \<not> window_created e then ''Failed to create GLFW window''
          else ''Failed to initialize GLAD'']
     \<and> written Stderr (fst (main e)) = []
     \<and> snd (main e) = Some (- 1)
     \<and> window_creations (fst (main e)) =
         [glfwCreateWindow SCR_WIDTH SCR_HEIGHT ''LearnOpenGL'']
     \<and> count_list (fst (main e)) gladLoadGLLoader = (if window_created e then 1 else 0)"
proof -
  have tr: "fst (main e) =
       window_setup e @
       (if \<not> window_created e
        then [cout Stdout ''Failed to create GLFW window'', glfwTerminate]
        else [glfwMakeContextCurrent, glfwSetFramebufferSizeCallback, gladLoadGLLoader,
              cout Stdout ''Failed to initialize GLAD''])"
    using assms by (auto simp: main_def)
  have w: "written Stdout (fst (main e)) =
         [if \<not> window_created e then ''Failed to create GLFW window''
          else ''Failed to initialize GLAD'']"
    using assms by (auto simp: written_main)
  have ex: "snd (main e) = Some (- 1)"
    using assms by (auto simp: main_exit)
  have wc: "window_creations (fst (main e)) =
         [glfwCreateWindow SCR_WIDTH SCR_HEIGHT ''LearnOpenGL'']"
    unfolding tr by (simp add: window_creations_def window_setup_def)
  have gl: "count_list (fst (main e)) gladLoadGLLoader = (if window_created e then 1 else 0)"
    unfolding tr by (simp add: window_setup_def)
  have we: "written Stderr (fst (main e)) = []"
    by (simp add: written_main)
  show ?thesis
    using tr w we ex wc gl by (intro conjI) assumption+
qed

theorem init_failure_reported_on_stdout_witness:
  "written Stdout (fst (main env_no_glad)) = [''Failed to initialize GLAD'']
   \<and> snd (main env_no_glad) = Some (- 1)"
proof -
  have h: "\<not> window_created env_no_glad \<or> \<not> glad_loaded env_no_glad"
    by (simp add: env_no_glad_def)
  have c: "window_created env_no_glad"
    by (simp add: env_no_glad_def)
  from init_failure_reported_on_stdout [OF h]
  have "written Stdout (fst (main env_no_glad)) =
          [if \<not> window_created env_no_glad then ''Failed to create GLFW window''
           else ''Failed to initialize GLAD'']"
    and "snd (main env_no_glad) = Some (- 1)"
    by blast+
  with c show ?thesis
    by simp
qed


text \<open>
  The claim as the spec words it, with the message on the standard error stream, fails: in
  the run where the window cannot be created nothing is written to that stream.
\<close>

theorem init_failure_not_on_stderr:
  "written Stderr (fst (main env_no_window)) = []
   \<and> written Stdout (fst (main env_no_window)) = [''Failed to create GLFW window'']
   \<and> snd (main env_no_window) = Some (- 1)"
  by (simp add: main_def env_no_window_def written_def window_setup_def)


text \<open>
  Claim C10. When the window cannot be created, \<open>main\<close> returns \<open>-1\<close> and its last call is
  \<open>glfwTerminate\<close>, made once. When the window exists and the function pointers cannot be
  loaded, \<open>main\<close> returns \<open>-1\<close> without any call of \<open>glfwTerminate\<close>. A return with \<open>0\<close>
  also ends with \<open>glfwTerminate\<close>, so the loader failure is the only way out that leaves
  GLFW unterminated.
\<close>

theorem failure_paths_differ_in_cleanup:
  "(\<not> window_created e \<longrightarrow>
      snd (main e) = Some (- 1) \<and> last (fst (main e)) = glfwTerminate
      \<and> count_list (fst (main e)) glfwTerminate = 1)
   \<and> (window_created e \<and> \<not> glad_loaded e \<longrightarrow>
      snd (main e) = Some (- 1) \<and> count_list (fst (main e)) glfwTerminate = 0)
   \<and> (snd (main e) = Some 0 \<longrightarrow> last (fst (main e)) = glfwTerminate)"
proof -
  have "last (fst (main e)) = glfwTerminate" if "snd (main e) = Some 0"
  proof -
    from that have "window_created e \<and> glad_loaded e"
      by (auto simp: main_exit split: if_splits)
    with that show ?thesis
      by (simp add: main_trace shutdown_def)
  qed
  then show ?thesis
    by (auto simp: main_def window_setup_def)
qed

theorem failure_paths_differ_in_cleanup_witness:
  "last (fst (main env_no_window)) = glfwTerminate
   \<and> count_list (fst (main env_no_glad)) glfwTerminate = 0
   \<and> snd (main env_no_window) = Some (- 1) \<and> snd (main env_no_glad) = Some (- 1)"
  using failure_paths_differ_in_cleanup [of env_no_window]
    failure_paths_differ_in_cleanup [of env_no_glad]
  by (simp add: env_no_window_def env_no_glad_def)


section \<open>Texture, geometry and shutdown\<close>

text \<open>
  Claim C7. When \<open>stbi_load\<close> returns no data (file missing or undecodable) in a run whose
  window and loader are fine, the message \<open>Failed to load texture\<close> is written and nothing
  else; no \<open>glTexImage2D\<close> call is made, so no decoded data reaches the texture; the loop
  executes exactly the iterations it would execute anyway (at least one when the
  environment has one); every executed iteration makes the indexed draw call; and the
  return value is never \<open>-1\<close> and equals that of the same run with a decodable file.
\<close>

theorem texture_failure_not_fatal:
  assumes "window_created e" "glad_loaded e" "stbi_result e = None"
  shows "written Stdout (fst (main e)) = [''Failed to load texture'']
     \<and> texture_images (fst (main e)) = []
     \<and> frames_run e = executed False (frames e)
     \<and> (frames e \<noteq> [] \<longrightarrow> frames_run e \<noteq> [])
     \<and> draws (fst (main e)) =
         replicate (length (frames_run e)) (glDrawElements GL_TRIANGLES 6 GL_UNSIGNED_INT 0)
     \<and> snd (main e) \<noteq> Some (- 1)
     \<and> snd (main e) = snd (main (e\<lparr>stbi_result := Some img\<rparr>))"
  using assms
  by (simp add: written_main texture_images_main draws_main frames_run_def main_exit
      executed_nonempty)

theorem texture_failure_not_fatal_witness:
  "written Stdout (fst (main env_two_frames)) = [''Failed to load texture'']
   \<and> texture_images (fst (main env_two_frames)) = []
   \<and> draws (fst (main env_two_frames)) =
       [glDrawElements GL_TRIANGLES 6 GL_UNSIGNED_INT 0,
        glDrawElements GL_TRIANGLES 6 GL_UNSIGNED_INT 0]
   \<and> snd (main env_two_frames) \<noteq> Some (- 1)"
proof -
  have h: "window_created env_two_frames" "glad_loaded env_two_frames"
    "stbi_result env_two_frames = None"
    by (simp_all add: env_two_frames_def)
  from texture_failure_not_fatal [OF h] show ?thesis
    by (simp add: frames_run_two)
qed


text \<open>
  Claim C8. The index array has 6 entries, the vertex array has 4 vertices of 8 floats,
  every index is below 4, and read three at a time the indices are the triangles
  \<open>(0, 1, 3)\<close> and \<open>(1, 2, 3)\<close>. In a run that gets past start-up the element buffer holds
  exactly these indices, every executed iteration makes the one draw call
  \<open>glDrawElements(GL_TRIANGLES, 6, GL_UNSIGNED_INT, 0)\<close>, and that call reads exactly the 6
  indices.
\<close>

theorem index_buffer_and_draw:
  "length indices = 6
   \<and> length vertices = 4 * 8
   \<and> (\<forall>i \<in> set indices. unat i < 4)
   \<and> triangles indices = [(0, 1, 3), (1, 2, 3)]
   \<and> (window_created e \<and> glad_loaded e \<longrightarrow> element_buffer buf (fst (main e)) = indices)
   \<and> draws (fst (main e)) =
       replicate (length (frames_run e)) (glDrawElements GL_TRIANGLES 6 GL_UNSIGNED_INT 0)
   \<and> fetched indices (glDrawElements GL_TRIANGLES 6 GL_UNSIGNED_INT 0) = indices"
  by (simp add: draws_main element_buffer_main)
     (simp add: indices_def vertices_def fetched_def sizeof_uint_def)

theorem index_buffer_and_draw_witness:
  "element_buffer [] (fst (main env_two_frames)) = [0, 1, 3, 1, 2, 3]
   \<and> map (fetched (element_buffer [] (fst (main env_two_frames))))
        (draws (fst (main env_two_frames))) = [[0, 1, 3, 1, 2, 3], [0, 1, 3, 1, 2, 3]]"
proof -
  have h: "window_created env_two_frames \<and> glad_loaded env_two_frames"
    by (simp add: env_two_frames_def)
  with index_buffer_and_draw [of env_two_frames "[]"] show ?thesis
    by (simp add: frames_run_two indices_def)
qed


text \<open>
  Claim C2 asks that each of the five GPU resources is released by exactly one explicit
  call at shutdown, and the comment above the shutdown sequence of \<open>main.cpp\<close> speaks of
  all resources. The code releases the vertex array and the two buffers only. In the run of
  \<open>env_two_frames\<close>, which ends normally, the texture is generated once, the three release
  calls are made, and no call releases the texture.
\<close>

theorem texture_never_released:
  "snd (main env_two_frames) = Some 0
   \<and> count_list (fst (main env_two_frames)) (glGenTextures 1 texture) = 1
   \<and> released (fst (main env_two_frames)) = [Object VAO, Object VBO, Object EBO]
   \<and> count_list (released (fst (main env_two_frames))) (Object texture) = 0"
proof -
  have r: "released (fst (main env_two_frames)) = [Object VAO, Object VBO, Object EBO]"
    by (simp add: main_def env_two_frames_def released_simps parts_defs frame_defs
        framebuffer_size_callback_def split: option.splits)
  have g: "count_list (fst (main env_two_frames)) (glGenTextures 1 texture) = 1"
    by (simp add: main_def env_two_frames_def parts_defs frame_defs
        framebuffer_size_callback_def split: option.splits)
  from r g exit_two_frames show ?thesis
    by simp
qed


section \<open>The order of uniform uploads\<close>

text \<open>
  Claim C9. In every run, iteration number \<open>j\<close> (from 0) uploads \<open>model\<close>, \<open>view\<close> and
  \<open>projection\<close> after exactly \<open>j\<close> calls of \<open>use()\<close>, that is before its own call, and
  uploads \<open>transform\<close> and \<open>time\<close> after \<open>j + 1\<close> calls, that is after its own call. So
  with \<open>use()\<close> activating the program, the three uploads of the first iteration go to
  whatever program \<open>p\<close> was active before \<open>use()\<close> was first called, and every other upload
  goes to the program of \<open>ourShader\<close>.
\<close>

theorem uniform_uploads_around_use:
  "upload_log 0 (fst (main e)) =
     concat (map (\<lambda>j. [(''model'', j), (''view'', j), (''projection'', j),
                       (''transform'', Suc j), (''time'', Suc j)])
               [0..<length (frames_run e)])
   \<and> upload_targets ours p (fst (main e)) =
     concat (map (\<lambda>j. [(''model'', if j = 0 then p else ours),
                       (''view'', if j = 0 then p else ours),
                       (''projection'', if j = 0 then p else ours),
                       (''transform'', ours), (''time'', ours)])
               [0..<length (frames_run e)])"
proof -
  have "upload_targets ours p (fst (main e)) =
      map (\<lambda>(name, j). (name, if j = 0 then p else ours)) (upload_log 0 (fst (main e)))"
    by (simp add: upload_targets_log [of ours p "fst (main e)" 0])
  then show ?thesis
    by (simp add: main_log map_concat comp_def)
qed

theorem uniform_uploads_around_use_witness:
  "upload_log 0 (fst (main env_two_frames)) =
     [(''model'', 0), (''view'', 0), (''projection'', 0), (''transform'', 1), (''time'', 1),
      (''model'', 1), (''view'', 1), (''projection'', 1), (''transform'', 2), (''time'', 2)]
   \<and> upload_targets True False (fst (main env_two_frames)) =
     [(''model'', False), (''view'', False), (''projection'', False),
      (''transform'', True), (''time'', True),
      (''model'', True), (''view'', True), (''projection'', True),
      (''transform'', True), (''time'', True)]"
  using uniform_uploads_around_use [of env_two_frames True False]
  by (simp add: frames_run_two upt_rec)


end
